theory Spec2Isabelle
  imports Main "HOL-Library.Word"
begin

section \<open>The OCR service of \<^verbatim>\<open>api/app/services/ocr_service.py\<close>\<close>

text \<open>
  The module is a thin layer over four collaborators: \<^verbatim>\<open>pdf2image.convert_from_path\<close>,
  \<^verbatim>\<open>PIL.Image.open\<close>, \<^verbatim>\<open>pytesseract.image_to_string\<close> and the temporary-file
  calls of \<^verbatim>\<open>tempfile\<close> and \<^verbatim>\<open>os\<close>. None of them is part of the module, so their
  behaviour is a parameter of the model (the record \<open>collaborators\<close>); everything the
  module itself does (the page loop, the numbering, the trimming, the staging of bytes in
  a temporary file, the \<^verbatim>\<open>try\<close>/\<^verbatim>\<open>finally\<close>) is translated statement by statement.

  An exception is a value of the type variable \<open>'e\<close>; an operation that may raise returns
  \<open>'e + 'a\<close>, with \<open>Inl\<close> for the exception. A page image is a value of the type
  variable \<open>'img\<close>.
\<close>

subsection \<open>Data\<close>

text \<open>
  A Python \<^verbatim>\<open>str\<close> that holds recognised text is a list of Unicode code points, since
  \<^verbatim>\<open>str.strip\<close> is defined on code points. Paths, language codes and file types are only
  compared and concatenated, and are HOL strings. Python's \<^verbatim>\<open>bytes\<close> is a list of
  octets, its \<^verbatim>\<open>int\<close> is \<open>int\<close>.
\<close>

type_synonym unicode = "nat list"
type_synonym path = string
type_synonym bytes = "8 word list"

text \<open>The class has one attribute, set by \<^verbatim>\<open>__init__\<close>.\<close>

record OCRService =
  lang :: string

text \<open>
  Every call of a collaborator is recorded, with its arguments, in the order in which the
  calls happen. \<open>ImageToString\<close> also records the executable that
  \<^verbatim>\<open>pytesseract\<close> would run, which it reads from its module variable at the call.
\<close>

datatype 'img event =
    ConvertFromPath path int
  | ImageOpen path
  | ImageToString string 'img string
  | TempFileCreate string
  | TempFileWrite path bytes
  | Unlink path

text \<open>
  The state outside a call: the module variable \<^verbatim>\<open>pytesseract.pytesseract.tesseract_cmd\<close>
  (one per process), the \<^verbatim>\<open>OCRService\<close> objects constructed so far (an object is
  referred to by its index), the files of the filesystem, and the log of collaborator calls.
\<close>

record 'img world =
  tesseract_cmd :: string
  objects :: "OCRService list"
  fs :: "path \<rightharpoonup> bytes"
  calls :: "'img event list"

text \<open>
  The collaborators. A file is given to a reader as its content, \<open>None\<close> when the path
  names no file.
  \<^item> \<open>pdf_render content dpi\<close>: the page images of \<^verbatim>\<open>convert_from_path\<close>, or its exception;
  \<^item> \<open>image_decode content\<close>: the image of \<^verbatim>\<open>Image.open\<close>, or its exception;
  \<^item> \<open>tesseract cmd img lang\<close>: the text of \<^verbatim>\<open>image_to_string\<close> run with the
    executable \<open>cmd\<close>, or its exception;
  \<^item> \<open>mkstemp files suffix\<close>: the name under which \<^verbatim>\<open>NamedTemporaryFile\<close> creates its
    file, or its exception;
  \<^item> \<open>write_outcome path data\<close>: \<open>None\<close> when writing and closing the temporary file
    succeed, otherwise the exception and what reached the file;
  \<^item> \<open>unlink_error files path\<close>: \<open>None\<close> when \<^verbatim>\<open>os.unlink\<close> succeeds, otherwise its
    exception.
\<close>

record ('img, 'e) collaborators =
  pdf_render :: "bytes option \<Rightarrow> int \<Rightarrow> 'e + 'img list"
  image_decode :: "bytes option \<Rightarrow> 'e + 'img"
  tesseract :: "string \<Rightarrow> 'img \<Rightarrow> string \<Rightarrow> 'e + unicode"
  mkstemp :: "(path \<rightharpoonup> bytes) \<Rightarrow> string \<Rightarrow> 'e + path"
  write_outcome :: "path \<Rightarrow> bytes \<Rightarrow> ('e \<times> bytes) option"
  unlink_error :: "(path \<rightharpoonup> bytes) \<Rightarrow> path \<Rightarrow> 'e option"

subsection \<open>\<^verbatim>\<open>str.strip()\<close>\<close>

text \<open>
  With no argument, \<^verbatim>\<open>strip\<close> removes the leading and the trailing code points that
  CPython classifies as whitespace.
\<close>

definition is_whitespace :: "nat \<Rightarrow> bool" where
  "is_whitespace c \<longleftrightarrow>
     (0x09 \<le> c \<and> c \<le> 0x0D) \<or> (0x1C \<le> c \<and> c \<le> 0x20) \<or> c = 0x85 \<or> c = 0xA0 \<or>
     c = 0x1680 \<or> (0x2000 \<le> c \<and> c \<le> 0x200A) \<or> c = 0x2028 \<or> c = 0x2029 \<or>
     c = 0x202F \<or> c = 0x205F \<or> c = 0x3000"

definition strip :: "unicode \<Rightarrow> unicode" where
  "strip s = rev (dropWhile is_whitespace (rev (dropWhile is_whitespace s)))"

subsection \<open>Calls of the collaborators\<close>

definition record_call :: "'img event \<Rightarrow> 'img world \<Rightarrow> 'img world" where
  "record_call ev w = w\<lparr>calls := calls w @ [ev]\<rparr>"

definition convert_from_path ::
  "('img, 'e) collaborators \<Rightarrow> path \<Rightarrow> int \<Rightarrow> 'img world \<Rightarrow> ('e + 'img list) \<times> 'img world" where
  "convert_from_path X pdf_path dpi w =
     (pdf_render X (fs w pdf_path) dpi, record_call (ConvertFromPath pdf_path dpi) w)"

definition Image_open ::
  "('img, 'e) collaborators \<Rightarrow> path \<Rightarrow> 'img world \<Rightarrow> ('e + 'img) \<times> 'img world" where
  "Image_open X image_path w =
     (image_decode X (fs w image_path), record_call (ImageOpen image_path) w)"

definition image_to_string ::
  "('img, 'e) collaborators \<Rightarrow> 'img \<Rightarrow> string \<Rightarrow> 'img world \<Rightarrow> ('e + unicode) \<times> 'img world" where
  "image_to_string X img l w =
     (tesseract X (tesseract_cmd w) img l,
      record_call (ImageToString (tesseract_cmd w) img l) w)"

text \<open>
  \<^verbatim>\<open>NamedTemporaryFile(suffix=..., delete=False)\<close> creates an empty file. The body of the
  \<^verbatim>\<open>with\<close> statement writes the bytes and leaving it closes the file; as
  \<^verbatim>\<open>delete=False\<close>, closing never removes the file, whether the body raised or not.
\<close>

definition NamedTemporaryFile ::
  "('img, 'e) collaborators \<Rightarrow> string \<Rightarrow> 'img world \<Rightarrow> ('e + path) \<times> 'img world" where
  "NamedTemporaryFile X suffix w =
     (case mkstemp X (fs w) suffix of
        Inl e \<Rightarrow> (Inl e, record_call (TempFileCreate suffix) w)
      | Inr tmp_path \<Rightarrow>
          (Inr tmp_path, record_call (TempFileCreate suffix) (w\<lparr>fs := (fs w)(tmp_path \<mapsto> [])\<rparr>)))"

definition tmp_write ::
  "('img, 'e) collaborators \<Rightarrow> path \<Rightarrow> bytes \<Rightarrow> 'img world \<Rightarrow> ('e + unit) \<times> 'img world" where
  "tmp_write X tmp_path file_bytes w =
     (case write_outcome X tmp_path file_bytes of
        None \<Rightarrow>
          (Inr (), record_call (TempFileWrite tmp_path file_bytes)
                     (w\<lparr>fs := (fs w)(tmp_path \<mapsto> file_bytes)\<rparr>))
      | Some (e, written) \<Rightarrow>
          (Inl e, record_call (TempFileWrite tmp_path file_bytes)
                    (w\<lparr>fs := (fs w)(tmp_path \<mapsto> written)\<rparr>)))"

definition os_unlink ::
  "('img, 'e) collaborators \<Rightarrow> path \<Rightarrow> 'img world \<Rightarrow> ('e + unit) \<times> 'img world" where
  "os_unlink X p w =
     (case unlink_error X (fs w) p of
        Some e \<Rightarrow> (Inl e, record_call (Unlink p) w)
      | None \<Rightarrow> (Inr (), record_call (Unlink p) (w\<lparr>fs := (fs w)(p := None)\<rparr>)))"

subsection \<open>The class \<^verbatim>\<open>OCRService\<close>\<close>

text \<open>
  \<^verbatim>\<open>__init__(self, lang="tam")\<close>: an optional argument is an \<open>option\<close>, \<open>None\<close> when the
  caller leaves it out. The constructor stores the language in the new object and
  assigns the module variable of \<^verbatim>\<open>pytesseract\<close>. It returns the reference to the new
  object.
\<close>

definition init :: "string option \<Rightarrow> 'img world \<Rightarrow> nat \<times> 'img world" where
  "init lang_arg w =
     (let l = (case lang_arg of None \<Rightarrow> ''tam'' | Some l \<Rightarrow> l)
      in (length (objects w),
          w\<lparr>objects := objects w @ [\<lparr>lang = l\<rparr>], tesseract_cmd := ''/usr/bin/tesseract''\<rparr>))"

text \<open>\<^verbatim>\<open>self.lang\<close>, read from the object that \<open>self\<close> refers to.\<close>

definition self_lang :: "'img world \<Rightarrow> nat \<Rightarrow> string" where
  "self_lang w self = lang (objects w ! self)"

text \<open>
  The loop of \<^verbatim>\<open>extract_text_from_pdf\<close>:
  \<^verbatim>\<open>for i, page in enumerate(pages, start=1)\<close>, with \<open>i\<close> the next page number and
  \<open>results\<close> the list built so far. An exception of \<^verbatim>\<open>image_to_string\<close> leaves the
  loop and the method.
\<close>

fun ocr_pages ::
  "('img, 'e) collaborators \<Rightarrow> nat \<Rightarrow> int \<Rightarrow> 'img list \<Rightarrow> (int \<times> unicode) list \<Rightarrow> 'img world
     \<Rightarrow> ('e + (int \<times> unicode) list) \<times> 'img world" where
  "ocr_pages X self i [] results w = (Inr results, w)"
| "ocr_pages X self i (page # rest) results w =
     (case image_to_string X page (self_lang w self) w of
        (Inl e, w') \<Rightarrow> (Inl e, w')
      | (Inr text, w') \<Rightarrow> ocr_pages X self (i + 1) rest (results @ [(i, strip text)]) w')"

definition extract_text_from_pdf ::
  "('img, 'e) collaborators \<Rightarrow> nat \<Rightarrow> path \<Rightarrow> int option \<Rightarrow> 'img world
     \<Rightarrow> ('e + (int \<times> unicode) list) \<times> 'img world" where
  "extract_text_from_pdf X self pdf_path dpi_arg w =
     (let dpi = (case dpi_arg of None \<Rightarrow> 300 | Some d \<Rightarrow> d)
      in case convert_from_path X pdf_path dpi w of
           (Inl e, w') \<Rightarrow> (Inl e, w')
         | (Inr pages, w') \<Rightarrow> ocr_pages X self 1 pages [] w')"

definition extract_text_from_image ::
  "('img, 'e) collaborators \<Rightarrow> nat \<Rightarrow> path \<Rightarrow> 'img world
     \<Rightarrow> ('e + (int \<times> unicode) list) \<times> 'img world" where
  "extract_text_from_image X self image_path w =
     (case Image_open X image_path w of
        (Inl e, w') \<Rightarrow> (Inl e, w')
      | (Inr img, w') \<Rightarrow>
          (case image_to_string X img (self_lang w' self) w' of
             (Inl e, w'') \<Rightarrow> (Inl e, w'')
           | (Inr text, w'') \<Rightarrow> (Inr [(1, strip text)], w'')))"

text \<open>
  \<^verbatim>\<open>extract_from_bytes\<close>. The \<^verbatim>\<open>with\<close> statement comes before the \<^verbatim>\<open>try\<close>: an
  exception of the creation or of the write leaves the method at once. Inside the
  \<^verbatim>\<open>try\<close>, the \<^verbatim>\<open>finally\<close> clause runs \<^verbatim>\<open>os.unlink\<close> after the dispatched method
  has returned or raised; when \<^verbatim>\<open>os.unlink\<close> itself raises, its exception is what leaves
  the method, in place of the pending return value or exception.
\<close>

definition extract_from_bytes ::
  "('img, 'e) collaborators \<Rightarrow> nat \<Rightarrow> bytes \<Rightarrow> string \<Rightarrow> 'img world
     \<Rightarrow> ('e + (int \<times> unicode) list) \<times> 'img world" where
  "extract_from_bytes X self file_bytes file_type w =
     (case NamedTemporaryFile X (''.'' @ file_type) w of
        (Inl e, w1) \<Rightarrow> (Inl e, w1)
      | (Inr tmp_path, w1) \<Rightarrow>
          (case tmp_write X tmp_path file_bytes w1 of
             (Inl e, w2) \<Rightarrow> (Inl e, w2)
           | (Inr _, w2) \<Rightarrow>
               (let (r, w3) =
                      (if file_type = ''pdf''
                       then extract_text_from_pdf X self tmp_path None w2
                       else extract_text_from_image X self tmp_path w2)
                in case os_unlink X tmp_path w3 of
                     (Inl e, w4) \<Rightarrow> (Inl e, w4)
                   | (Inr _, w4) \<Rightarrow> (r, w4))))"

subsection \<open>What a call adds to the log\<close>

text \<open>The calls recorded between two states, the languages and the resolutions in them.\<close>

definition new_calls :: "'img world \<Rightarrow> 'img world \<Rightarrow> 'img event list" where
  "new_calls w w' = drop (length (calls w)) (calls w')"

fun langs_used :: "'img event list \<Rightarrow> string list" where
  "langs_used [] = []"
| "langs_used (ImageToString cmd img l # evs) = l # langs_used evs"
| "langs_used (ev # evs) = langs_used evs"

fun cmds_used :: "'img event list \<Rightarrow> string list" where
  "cmds_used [] = []"
| "cmds_used (ImageToString cmd img l # evs) = cmd # cmds_used evs"
| "cmds_used (ev # evs) = cmds_used evs"

fun dpis_used :: "'img event list \<Rightarrow> int list" where
  "dpis_used [] = []"
| "dpis_used (ConvertFromPath p dpi # evs) = dpi # dpis_used evs"
| "dpis_used (ev # evs) = dpis_used evs"

fun unlinks :: "'img event list \<Rightarrow> path list" where
  "unlinks [] = []"
| "unlinks (Unlink p # evs) = p # unlinks evs"
| "unlinks (ev # evs) = unlinks evs"

text \<open>
  The path-based method that corresponds to a file type: the one to which
  \<^verbatim>\<open>extract_from_bytes\<close> hands the temporary file, called as it calls it.
\<close>

definition path_method ::
  "('img, 'e) collaborators \<Rightarrow> nat \<Rightarrow> string \<Rightarrow> path \<Rightarrow> 'img world
     \<Rightarrow> ('e + (int \<times> unicode) list) \<times> 'img world" where
  "path_method X self file_type p w =
     (if file_type = ''pdf'' then extract_text_from_pdf X self p None w
      else extract_text_from_image X self p w)"

subsection \<open>A concrete setting\<close>

text \<open>
  Collaborators and a state on which the theorems below are run. A page image is a
  number: the test renderer yields one page per byte of the file, \<^verbatim>\<open>Image.open\<close> yields
  the file's length, and the test engine fails on page \<open>0\<close> and otherwise answers with a
  Tamil letter between a space and a line feed. Exceptions are their messages.
\<close>

definition demo_X :: "(nat, string) collaborators" where
  "demo_X =
     \<lparr>pdf_render = (\<lambda>content dpi.
        case content of None \<Rightarrow> Inl ''PDFPageCountError'' | Some bs \<Rightarrow> Inr (map unat bs)),
      image_decode = (\<lambda>content.
        case content of None \<Rightarrow> Inl ''FileNotFoundError'' | Some bs \<Rightarrow> Inr (length bs)),
      tesseract = (\<lambda>cmd img l.
        if img = 0 then Inl ''TesseractError'' else Inr [0x20, 0xB80 + img, 0x0A]),
      mkstemp = (\<lambda>files suffix. Inr (''/tmp/tmpq3'' @ suffix)),
      write_outcome = (\<lambda>p d. None),
      unlink_error = (\<lambda>files p. None)\<rparr>"

definition demo_w :: "nat world" where
  "demo_w =
     \<lparr>tesseract_cmd = ''/usr/bin/tesseract'',
      objects = [\<lparr>lang = ''tam''\<rparr>],
      fs = [''/data/report.pdf'' \<mapsto> [1, 2, 3], ''/data/torn.pdf'' \<mapsto> [4, 0, 5],
            ''/data/scan.png'' \<mapsto> [9, 9]],
      calls = []\<rparr>"

definition demo_X_unlink_fails :: "(nat, string) collaborators" where
  "demo_X_unlink_fails = demo_X\<lparr>unlink_error := (\<lambda>files p. Some ''PermissionError'')\<rparr>"

definition demo_X_disk_full :: "(nat, string) collaborators" where
  "demo_X_disk_full = demo_X\<lparr>write_outcome := (\<lambda>p d. Some (''OSError: No space left'', take 1 d))\<rparr>"

definition demo_X_no_tmp_dir :: "(nat, string) collaborators" where
  "demo_X_no_tmp_dir = demo_X\<lparr>mkstemp := (\<lambda>files suffix. Inl ''FileNotFoundError: No usable temporary directory'')\<rparr>"

section \<open>Properties\<close>

subsection \<open>The log and the loop\<close>

lemma record_call_simps [simp]:
  "tesseract_cmd (record_call ev w) = tesseract_cmd w"
  "objects (record_call ev w) = objects w"
  "fs (record_call ev w) = fs w"
  "calls (record_call ev w) = calls w @ [ev]"
  by (simp_all add: record_call_def)

lemma record_call_calls_update [simp]:
  "(record_call ev w)\<lparr>calls := c\<rparr> = w\<lparr>calls := c\<rparr>"
  by (simp add: record_call_def)

lemma self_lang_record_call [simp]: "self_lang (record_call ev w) self = self_lang w self"
  by (simp add: self_lang_def)

lemma new_calls_append [simp]: "new_calls w (w\<lparr>calls := calls w @ evs\<rparr>) = evs"
  by (simp add: new_calls_def)

text \<open>When the engine answers on every page, the loop numbers the pages from \<open>i\<close> on.\<close>

lemma ocr_pages_ok:
  "map (\<lambda>pg. tesseract X (tesseract_cmd w) pg (self_lang w self)) pages = map Inr texts \<Longrightarrow>
   ocr_pages X self i pages results w =
     (Inr (results @ zip [i..i + int (length pages) - 1] (map strip texts)),
      w\<lparr>calls := calls w @ map (\<lambda>pg. ImageToString (tesseract_cmd w) pg (self_lang w self)) pages\<rparr>)"
proof (induction pages arbitrary: i results w texts)
  case Nil
  then show ?case by simp
next
  case (Cons page rest)
  then obtain t ts where texts: "texts = t # ts"
    and t: "tesseract X (tesseract_cmd w) page (self_lang w self) = Inr t"
    and ts: "map (\<lambda>pg. tesseract X (tesseract_cmd w) pg (self_lang w self)) rest = map Inr ts"
    by (cases texts) auto
  let ?w' = "record_call (ImageToString (tesseract_cmd w) page (self_lang w self)) w"
  have ts': "map (\<lambda>pg. tesseract X (tesseract_cmd ?w') pg (self_lang ?w' self)) rest = map Inr ts"
    using ts by simp
  have up: "[i..i + int (length (page # rest)) - 1] = i # [i + 1..i + 1 + int (length rest) - 1]"
    by (simp add: upto_rec1)
  show ?case
    unfolding up texts
    by (simp add: image_to_string_def t Cons.IH [OF ts'])
qed

text \<open>When the engine fails on a page, the loop ends there with the engine's exception.\<close>

lemma ocr_pages_abort:
  "map (\<lambda>pg. tesseract X (tesseract_cmd w) pg (self_lang w self)) done_pages = map Inr texts \<Longrightarrow>
   tesseract X (tesseract_cmd w) bad (self_lang w self) = Inl e \<Longrightarrow>
   ocr_pages X self i (done_pages @ bad # later) results w =
     (Inl e,
      w\<lparr>calls := calls w @
          map (\<lambda>pg. ImageToString (tesseract_cmd w) pg (self_lang w self)) (done_pages @ [bad])\<rparr>)"
proof (induction done_pages arbitrary: i results w texts)
  case Nil
  then show ?case by (simp add: image_to_string_def)
next
  case (Cons page rest)
  then obtain t ts where texts: "texts = t # ts"
    and t: "tesseract X (tesseract_cmd w) page (self_lang w self) = Inr t"
    and ts: "map (\<lambda>pg. tesseract X (tesseract_cmd w) pg (self_lang w self)) rest = map Inr ts"
    by (cases texts) auto
  let ?w' = "record_call (ImageToString (tesseract_cmd w) page (self_lang w self)) w"
  have ts': "map (\<lambda>pg. tesseract X (tesseract_cmd ?w') pg (self_lang ?w' self)) rest = map Inr ts"
    using ts by simp
  have bad': "tesseract X (tesseract_cmd ?w') bad (self_lang ?w' self) = Inl e"
    using Cons.prems(2) by simp
  show ?case
    by (simp add: image_to_string_def t Cons.IH [OF ts' bad'])
qed

text \<open>
  Whatever the engine does, the loop changes nothing but the log, to which it adds one
  engine call for each page of an initial part of the list, with the executable and the
  language of the start.
\<close>

lemma ocr_pages_frame:
  "\<exists>n. snd (ocr_pages X self i pages results w) =
     w\<lparr>calls := calls w @
         map (\<lambda>pg. ImageToString (tesseract_cmd w) pg (self_lang w self)) (take n pages)\<rparr>"
proof (induction pages arbitrary: i results w)
  case Nil
  then show ?case by simp
next
  case (Cons page rest)
  let ?ev = "ImageToString (tesseract_cmd w) page (self_lang w self)"
  let ?w' = "record_call ?ev w"
  show ?case
  proof (cases "tesseract X (tesseract_cmd w) page (self_lang w self)")
    case (Inl e)
    then have "snd (ocr_pages X self i (page # rest) results w) =
        w\<lparr>calls := calls w @ map (\<lambda>pg. ImageToString (tesseract_cmd w) pg (self_lang w self))
          (take (Suc 0) (page # rest))\<rparr>"
      by (simp add: image_to_string_def)
    then show ?thesis by blast
  next
    case (Inr t)
    from Cons.IH [of "i + 1" "results @ [(i, strip t)]" ?w']
    obtain n where n: "snd (ocr_pages X self (i + 1) rest (results @ [(i, strip t)]) ?w') =
        ?w'\<lparr>calls := calls ?w' @
          map (\<lambda>pg. ImageToString (tesseract_cmd ?w') pg (self_lang ?w' self)) (take n rest)\<rparr>"
      by blast
    have "snd (ocr_pages X self i (page # rest) results w) =
        w\<lparr>calls := calls w @ map (\<lambda>pg. ImageToString (tesseract_cmd w) pg (self_lang w self))
          (take (Suc n) (page # rest))\<rparr>"
      using n by (simp add: image_to_string_def Inr)
    then show ?thesis by blast
  qed
qed

subsection \<open>The pages of a PDF\<close>

text \<open>
  C1. For every path to a valid \<open>N\<close>-page PDF (one that \<^verbatim>\<open>convert_from_path\<close> renders
  into \<open>N\<close> page images, on each of which the OCR engine returns a text) and every dpi, given
  or left to its default, \<^verbatim>\<open>extract_text_from_pdf\<close> returns exactly \<open>N\<close> entries; their
  page numbers are \<open>1..N\<close> in ascending order with no gaps, one per page, and the text of
  each entry is the engine's output for that page with the surrounding whitespace trimmed.
\<close>

theorem extract_text_from_pdf_pages:
  assumes "pdf_render X (fs w pdf_path) (case dpi_arg of None \<Rightarrow> 300 | Some d \<Rightarrow> d) = Inr pages"
    and "map (\<lambda>pg. tesseract X (tesseract_cmd w) pg (self_lang w self)) pages = map Inr texts"
  shows "\<exists>results.
           fst (extract_text_from_pdf X self pdf_path dpi_arg w) = Inr results \<and>
           results = zip [1..int (length pages)] (map strip texts) \<and>
           length results = length pages \<and>
           map fst results = [1..int (length pages)] \<and>
           map snd results = map strip texts"
proof -
  let ?dpi = "case dpi_arg of None \<Rightarrow> 300 | Some d \<Rightarrow> d"
  let ?w' = "record_call (ConvertFromPath pdf_path ?dpi) w"
  have len: "length texts = length pages"
    using assms(2) by (metis length_map)
  have "map (\<lambda>pg. tesseract X (tesseract_cmd ?w') pg (self_lang ?w' self)) pages = map Inr texts"
    using assms(2) by simp
  from ocr_pages_ok [OF this, of 1 "[]"]
  have "fst (extract_text_from_pdf X self pdf_path dpi_arg w) =
      Inr (zip [1..int (length pages)] (map strip texts))"
    using assms(1) by (simp add: extract_text_from_pdf_def convert_from_path_def)
  then show ?thesis
    using len by simp
qed

theorem extract_text_from_pdf_pages_witness:
  "pdf_render demo_X (fs demo_w ''/data/report.pdf'') (case Some 200 of None \<Rightarrow> 300 | Some d \<Rightarrow> d)
     = Inr [1, 2, 3] \<and>
   map (\<lambda>pg. tesseract demo_X (tesseract_cmd demo_w) pg (self_lang demo_w 0)) [1, 2, 3]
     = map Inr [[0x20, 0xB81, 0x0A], [0x20, 0xB82, 0x0A], [0x20, 0xB83, 0x0A]] \<and>
   fst (extract_text_from_pdf demo_X 0 ''/data/report.pdf'' (Some 200) demo_w)
     = Inr [(1, [0xB81]), (2, [0xB82]), (3, [0xB83])]"
proof -
  have h1: "pdf_render demo_X (fs demo_w ''/data/report.pdf'')
      (case Some 200 of None \<Rightarrow> 300 | Some d \<Rightarrow> d) = Inr [1, 2, 3]"
    by (simp add: demo_X_def demo_w_def)
  have h2: "map (\<lambda>pg. tesseract demo_X (tesseract_cmd demo_w) pg (self_lang demo_w 0)) [1, 2, 3]
      = map Inr [[0x20, 0xB81, 0x0A], [0x20, 0xB82, 0x0A], [0x20, 0xB83, 0x0A]]"
    by (simp add: demo_X_def)
  have up: "[1..3] = [1, 2, 3::int]"
    by (simp add: upto_rec1)
  from extract_text_from_pdf_pages [OF h1 h2]
  have "fst (extract_text_from_pdf demo_X 0 ''/data/report.pdf'' (Some 200) demo_w)
      = Inr [(1, [0xB81]), (2, [0xB82]), (3, [0xB83])]"
    by (simp add: up strip_def is_whitespace_def)
  with h1 h2 show ?thesis by blast
qed

text \<open>
  C4. If the OCR engine raises on a page in \<^verbatim>\<open>extract_text_from_pdf\<close>, the whole call
  ends with the engine's exception for the first such page: the outcome is the exception
  and not a list, so the pages recognised before it are not returned. The engine has
  then been called once on each page up to and including the failing one, in page order:
  no page is tried again, and no later page is tried at all.
\<close>

theorem extract_text_from_pdf_aborts:
  assumes "pdf_render X (fs w pdf_path) (case dpi_arg of None \<Rightarrow> 300 | Some d \<Rightarrow> d)
             = Inr (done_pages @ bad # later)"
    and "map (\<lambda>pg. tesseract X (tesseract_cmd w) pg (self_lang w self)) done_pages = map Inr texts"
    and "tesseract X (tesseract_cmd w) bad (self_lang w self) = Inl e"
  shows "fst (extract_text_from_pdf X self pdf_path dpi_arg w) = Inl e \<and>
         new_calls w (snd (extract_text_from_pdf X self pdf_path dpi_arg w)) =
           ConvertFromPath pdf_path (case dpi_arg of None \<Rightarrow> 300 | Some d \<Rightarrow> d) #
           map (\<lambda>pg. ImageToString (tesseract_cmd w) pg (self_lang w self)) (done_pages @ [bad])"
proof -
  let ?dpi = "case dpi_arg of None \<Rightarrow> 300 | Some d \<Rightarrow> d"
  let ?w' = "record_call (ConvertFromPath pdf_path ?dpi) w"
  have a: "map (\<lambda>pg. tesseract X (tesseract_cmd ?w') pg (self_lang ?w' self)) done_pages
      = map Inr texts"
    using assms(2) by simp
  have b: "tesseract X (tesseract_cmd ?w') bad (self_lang ?w' self) = Inl e"
    using assms(3) by simp
  have "extract_text_from_pdf X self pdf_path dpi_arg w =
      (Inl e, w\<lparr>calls := calls w @ ConvertFromPath pdf_path ?dpi #
         map (\<lambda>pg. ImageToString (tesseract_cmd w) pg (self_lang w self)) (done_pages @ [bad])\<rparr>)"
    using assms(1) ocr_pages_abort [OF a b, of 1 later "[]"]
    by (simp add: extract_text_from_pdf_def convert_from_path_def)
  then show ?thesis
    by (simp del: map_append)
qed

theorem extract_text_from_pdf_aborts_witness:
  "pdf_render demo_X (fs demo_w ''/data/torn.pdf'') (case None of None \<Rightarrow> 300 | Some d \<Rightarrow> d)
     = Inr ([4] @ 0 # [5]) \<and>
   map (\<lambda>pg. tesseract demo_X (tesseract_cmd demo_w) pg (self_lang demo_w 0)) [4]
     = map Inr [[0x20, 0xB84, 0x0A]] \<and>
   tesseract demo_X (tesseract_cmd demo_w) 0 (self_lang demo_w 0) = Inl ''TesseractError'' \<and>
   fst (extract_text_from_pdf demo_X 0 ''/data/torn.pdf'' None demo_w) = Inl ''TesseractError'' \<and>
   new_calls demo_w (snd (extract_text_from_pdf demo_X 0 ''/data/torn.pdf'' None demo_w)) =
     [ConvertFromPath ''/data/torn.pdf'' 300,
      ImageToString ''/usr/bin/tesseract'' 4 ''tam'',
      ImageToString ''/usr/bin/tesseract'' 0 ''tam'']"
proof -
  have h1: "pdf_render demo_X (fs demo_w ''/data/torn.pdf'')
      (case None of None \<Rightarrow> 300 | Some d \<Rightarrow> d) = Inr ([4] @ 0 # [5])"
    by (simp add: demo_X_def demo_w_def)
  have h2: "map (\<lambda>pg. tesseract demo_X (tesseract_cmd demo_w) pg (self_lang demo_w 0)) [4]
      = map Inr [[0x20, 0xB84, 0x0A]]"
    by (simp add: demo_X_def)
  have h3: "tesseract demo_X (tesseract_cmd demo_w) 0 (self_lang demo_w 0) = Inl ''TesseractError''"
    by (simp add: demo_X_def)
  have cfg: "tesseract_cmd demo_w = ''/usr/bin/tesseract''" "self_lang demo_w 0 = ''tam''"
    by (simp_all add: demo_w_def self_lang_def)
  from extract_text_from_pdf_aborts [OF h1 h2 h3]
  have "fst (extract_text_from_pdf demo_X 0 ''/data/torn.pdf'' None demo_w) = Inl ''TesseractError'' \<and>
      new_calls demo_w (snd (extract_text_from_pdf demo_X 0 ''/data/torn.pdf'' None demo_w)) =
        [ConvertFromPath ''/data/torn.pdf'' 300,
         ImageToString ''/usr/bin/tesseract'' 4 ''tam'',
         ImageToString ''/usr/bin/tesseract'' 0 ''tam'']"
    by (simp add: cfg)
  with h1 h2 h3 show ?thesis by blast
qed

subsection \<open>The single page of an image\<close>

text \<open>
  C5. For every valid image path (one whose file \<^verbatim>\<open>Image.open\<close> decodes and on which the
  OCR engine returns a text), \<^verbatim>\<open>extract_text_from_image\<close> returns exactly the
  single-element list \<open>[(1, t)]\<close>, where \<open>t\<close> is the engine's output with the surrounding
  whitespace trimmed.
\<close>

theorem extract_text_from_image_single:
  assumes "image_decode X (fs w image_path) = Inr img"
    and "tesseract X (tesseract_cmd w) img (self_lang w self) = Inr text"
  shows "fst (extract_text_from_image X self image_path w) = Inr [(1, strip text)]"
  using assms
  by (simp add: extract_text_from_image_def Image_open_def image_to_string_def
      record_call_def self_lang_def)

theorem extract_text_from_image_single_witness:
  "image_decode demo_X (fs demo_w ''/data/scan.png'') = Inr 2 \<and>
   tesseract demo_X (tesseract_cmd demo_w) 2 (self_lang demo_w 0) = Inr [0x20, 0xB82, 0x0A] \<and>
   fst (extract_text_from_image demo_X 0 ''/data/scan.png'' demo_w) = Inr [(1, [0xB82])]"
proof -
  have h1: "image_decode demo_X (fs demo_w ''/data/scan.png'') = Inr 2"
    by (simp add: demo_X_def demo_w_def)
  have h2: "tesseract demo_X (tesseract_cmd demo_w) 2 (self_lang demo_w 0) = Inr [0x20, 0xB82, 0x0A]"
    by (simp add: demo_X_def)
  from extract_text_from_image_single [OF h1 h2]
  have "fst (extract_text_from_image demo_X 0 ''/data/scan.png'' demo_w) = Inr [(1, [0xB82])]"
    by (simp add: strip_def is_whitespace_def)
  with h1 h2 show ?thesis by blast
qed

subsection \<open>What the methods leave behind\<close>

lemma langs_used_engine [simp]:
  "langs_used (map (\<lambda>pg. ImageToString cmd pg l) pgs) = replicate (length pgs) l"
  by (induction pgs) simp_all

lemma cmds_used_engine [simp]:
  "cmds_used (map (\<lambda>pg. ImageToString cmd pg l) pgs) = replicate (length pgs) cmd"
  by (induction pgs) simp_all

lemma dpis_used_engine [simp]: "dpis_used (map (\<lambda>pg. ImageToString cmd pg l) pgs) = []"
  by (induction pgs) simp_all

lemma unlinks_engine [simp]: "unlinks (map (\<lambda>pg. ImageToString cmd pg l) pgs) = []"
  by (induction pgs) simp_all

lemma extract_text_from_pdf_frame:
  "\<exists>pgs. snd (extract_text_from_pdf X self p dpi_arg w) =
     w\<lparr>calls := calls w @ ConvertFromPath p (case dpi_arg of None \<Rightarrow> 300 | Some d \<Rightarrow> d) #
         map (\<lambda>pg. ImageToString (tesseract_cmd w) pg (self_lang w self)) pgs\<rparr>"
proof (cases "pdf_render X (fs w p) (case dpi_arg of None \<Rightarrow> 300 | Some d \<Rightarrow> d)")
  case (Inl e)
  then have "snd (extract_text_from_pdf X self p dpi_arg w) =
     w\<lparr>calls := calls w @ ConvertFromPath p (case dpi_arg of None \<Rightarrow> 300 | Some d \<Rightarrow> d) #
         map (\<lambda>pg. ImageToString (tesseract_cmd w) pg (self_lang w self)) []\<rparr>"
    by (simp add: extract_text_from_pdf_def convert_from_path_def)
  then show ?thesis by blast
next
  case (Inr pages)
  let ?w' = "record_call (ConvertFromPath p (case dpi_arg of None \<Rightarrow> 300 | Some d \<Rightarrow> d)) w"
  from ocr_pages_frame [of X self 1 pages "[]" ?w']
  obtain n where "snd (ocr_pages X self 1 pages [] ?w') =
      ?w'\<lparr>calls := calls ?w' @
         map (\<lambda>pg. ImageToString (tesseract_cmd ?w') pg (self_lang ?w' self)) (take n pages)\<rparr>"
    by blast
  then have "snd (extract_text_from_pdf X self p dpi_arg w) =
     w\<lparr>calls := calls w @ ConvertFromPath p (case dpi_arg of None \<Rightarrow> 300 | Some d \<Rightarrow> d) #
         map (\<lambda>pg. ImageToString (tesseract_cmd w) pg (self_lang w self)) (take n pages)\<rparr>"
    using Inr by (simp add: extract_text_from_pdf_def convert_from_path_def)
  then show ?thesis by blast
qed

lemma extract_text_from_image_frame:
  "\<exists>pgs. snd (extract_text_from_image X self p w) =
     w\<lparr>calls := calls w @ ImageOpen p #
         map (\<lambda>pg. ImageToString (tesseract_cmd w) pg (self_lang w self)) pgs\<rparr>"
proof (cases "image_decode X (fs w p)")
  case (Inl e)
  then have "snd (extract_text_from_image X self p w) =
     w\<lparr>calls := calls w @ ImageOpen p #
         map (\<lambda>pg. ImageToString (tesseract_cmd w) pg (self_lang w self)) []\<rparr>"
    by (simp add: extract_text_from_image_def Image_open_def)
  then show ?thesis by blast
next
  case (Inr img)
  then have "snd (extract_text_from_image X self p w) =
     w\<lparr>calls := calls w @ ImageOpen p #
         map (\<lambda>pg. ImageToString (tesseract_cmd w) pg (self_lang w self)) [img]\<rparr>"
    by (simp add: extract_text_from_image_def Image_open_def image_to_string_def
        split: sum.splits)
  then show ?thesis by blast
qed

text \<open>The first call of a path-based method.\<close>

lemma path_method_frame:
  "\<exists>pgs. snd (path_method X self file_type p w) =
     w\<lparr>calls := calls w @
         (if file_type = ''pdf'' then ConvertFromPath p 300 else ImageOpen p) #
         map (\<lambda>pg. ImageToString (tesseract_cmd w) pg (self_lang w self)) pgs\<rparr>"
  using extract_text_from_pdf_frame [of X self p None w] extract_text_from_image_frame [of X self p w]
  by (simp add: path_method_def)

text \<open>The outcome of the loop and of the methods depends on the state only through
  the file read, the executable and the language.\<close>

lemma ocr_pages_result_cong:
  "tesseract_cmd v = tesseract_cmd w \<Longrightarrow> self_lang v self = self_lang w self \<Longrightarrow>
   fst (ocr_pages X self i pages results v) = fst (ocr_pages X self i pages results w)"
proof (induction pages arbitrary: i results v w)
  case Nil
  then show ?case by simp
next
  case (Cons page rest)
  show ?case
  proof (cases "tesseract X (tesseract_cmd w) page (self_lang w self)")
    case (Inl e)
    then show ?thesis using Cons.prems by (simp add: image_to_string_def)
  next
    case (Inr t)
    let ?ev = "ImageToString (tesseract_cmd w) page (self_lang w self)"
    have "fst (ocr_pages X self (i + 1) rest (results @ [(i, strip t)]) (record_call ?ev v)) =
        fst (ocr_pages X self (i + 1) rest (results @ [(i, strip t)]) (record_call ?ev w))"
      by (rule Cons.IH) (simp_all add: Cons.prems)
    then show ?thesis using Cons.prems Inr by (simp add: image_to_string_def)
  qed
qed

lemma path_method_result_cong:
  assumes "fs v q = fs w p" and "tesseract_cmd v = tesseract_cmd w"
    and "self_lang v self = self_lang w self"
  shows "fst (path_method X self file_type q v) = fst (path_method X self file_type p w)"
proof -
  have pdf: "fst (extract_text_from_pdf X self q None v) = fst (extract_text_from_pdf X self p None w)"
  proof (cases "pdf_render X (fs w p) 300")
    case (Inl e)
    then show ?thesis using assms by (simp add: extract_text_from_pdf_def convert_from_path_def)
  next
    case (Inr pages)
    have "fst (ocr_pages X self 1 pages [] (record_call (ConvertFromPath q 300) v)) =
        fst (ocr_pages X self 1 pages [] (record_call (ConvertFromPath p 300) w))"
      by (rule ocr_pages_result_cong) (simp_all add: assms)
    then show ?thesis using assms Inr by (simp add: extract_text_from_pdf_def convert_from_path_def)
  qed
  have img: "fst (extract_text_from_image X self q v) = fst (extract_text_from_image X self p w)"
    using assms
    by (simp add: extract_text_from_image_def Image_open_def image_to_string_def
        split: sum.splits)
  show ?thesis using pdf img by (simp add: path_method_def)
qed

text \<open>The state once the bytes are in the temporary file.\<close>

lemma extract_from_bytes_staged:
  assumes mk: "mkstemp X (fs w) (''.'' @ file_type) = Inr tmp_path"
    and wr: "write_outcome X tmp_path file_bytes = None"
  shows "extract_from_bytes X self file_bytes file_type w =
     (let w2 = w\<lparr>fs := (fs w)(tmp_path \<mapsto> file_bytes),
                 calls := calls w @ [TempFileCreate (''.'' @ file_type),
                                     TempFileWrite tmp_path file_bytes]\<rparr>;
          d = path_method X self file_type tmp_path w2
      in case unlink_error X ((fs w)(tmp_path \<mapsto> file_bytes)) tmp_path of
           Some e \<Rightarrow> (Inl e, record_call (Unlink tmp_path) (snd d))
         | None \<Rightarrow> (fst d, record_call (Unlink tmp_path)
                      ((snd d)\<lparr>fs := (fs w)(tmp_path := None)\<rparr>)))"
proof -
  define w2 where "w2 = w\<lparr>fs := (fs w)(tmp_path \<mapsto> file_bytes),
                 calls := calls w @ [TempFileCreate (''.'' @ file_type),
                                     TempFileWrite tmp_path file_bytes]\<rparr>"
  define d where "d = path_method X self file_type tmp_path w2"
  have st: "NamedTemporaryFile X (''.'' @ file_type) w =
      (Inr tmp_path, snd (NamedTemporaryFile X (''.'' @ file_type) w))"
    "tmp_write X tmp_path file_bytes (snd (NamedTemporaryFile X (''.'' @ file_type) w))
      = (Inr (), w2)"
    using mk wr by (simp_all add: NamedTemporaryFile_def tmp_write_def record_call_def w2_def)
  obtain pgs where "snd d =
      w2\<lparr>calls := calls w2 @
         (if file_type = ''pdf'' then ConvertFromPath tmp_path 300 else ImageOpen tmp_path) #
         map (\<lambda>pg. ImageToString (tesseract_cmd w2) pg (self_lang w2 self)) pgs\<rparr>"
    using path_method_frame [of X self file_type tmp_path w2] unfolding d_def by blast
  then have "fs (snd d) = fs w2"
    by simp
  then have fs_d: "fs (snd d) = (fs w)(tmp_path \<mapsto> file_bytes)"
    by (simp add: w2_def)
  have disp: "(if file_type = ''pdf'' then extract_text_from_pdf X self tmp_path None w2
                else extract_text_from_image X self tmp_path w2) = d"
    by (simp add: d_def path_method_def)
  have "extract_from_bytes X self file_bytes file_type w =
      (case os_unlink X tmp_path (snd d) of
         (Inl e, w4) \<Rightarrow> (Inl e, w4)
       | (Inr _, w4) \<Rightarrow> (fst d, w4))"
    unfolding extract_from_bytes_def
    apply (subst st(1))
    apply (simp only: prod.case sum.case st(2) disp)
    apply (simp add: case_prod_beta)
    done
  then have "extract_from_bytes X self file_bytes file_type w =
      (case unlink_error X ((fs w)(tmp_path \<mapsto> file_bytes)) tmp_path of
           Some e \<Rightarrow> (Inl e, record_call (Unlink tmp_path) (snd d))
         | None \<Rightarrow> (fst d, record_call (Unlink tmp_path)
                      ((snd d)\<lparr>fs := (fs w)(tmp_path := None)\<rparr>)))"
    by (simp add: os_unlink_def fs_d split: option.splits)
  then show ?thesis
    unfolding Let_def d_def w2_def .
qed

lemma new_calls_fs_append [simp]: "new_calls w (w\<lparr>fs := F, calls := calls w @ evs\<rparr>) = evs"
  by (simp add: new_calls_def)

lemma extract_from_bytes_no_file:
  assumes "mkstemp X (fs w) (''.'' @ file_type) = Inl e"
  shows "extract_from_bytes X self file_bytes file_type w =
     (Inl e, w\<lparr>calls := calls w @ [TempFileCreate (''.'' @ file_type)]\<rparr>)"
  using assms by (simp add: extract_from_bytes_def NamedTemporaryFile_def record_call_def)

lemma extract_from_bytes_write_failed:
  assumes "mkstemp X (fs w) (''.'' @ file_type) = Inr tmp_path"
    and "write_outcome X tmp_path file_bytes = Some (e, written)"
  shows "extract_from_bytes X self file_bytes file_type w =
     (Inl e, w\<lparr>fs := (fs w)(tmp_path \<mapsto> written),
               calls := calls w @ [TempFileCreate (''.'' @ file_type),
                                   TempFileWrite tmp_path file_bytes]\<rparr>)"
  using assms
  by (simp add: extract_from_bytes_def NamedTemporaryFile_def tmp_write_def record_call_def)

lemma extract_from_bytes_staged_calls:
  assumes mk: "mkstemp X (fs w) (''.'' @ file_type) = Inr tmp_path"
    and wr: "write_outcome X tmp_path file_bytes = None"
  shows "\<exists>F pgs. snd (extract_from_bytes X self file_bytes file_type w) =
     w\<lparr>fs := F,
       calls := calls w @
         [TempFileCreate (''.'' @ file_type), TempFileWrite tmp_path file_bytes,
          if file_type = ''pdf'' then ConvertFromPath tmp_path 300 else ImageOpen tmp_path] @
         map (\<lambda>pg. ImageToString (tesseract_cmd w) pg (self_lang w self)) pgs @
         [Unlink tmp_path]\<rparr>"
proof -
  define w2 where "w2 = w\<lparr>fs := (fs w)(tmp_path \<mapsto> file_bytes),
                 calls := calls w @ [TempFileCreate (''.'' @ file_type),
                                     TempFileWrite tmp_path file_bytes]\<rparr>"
  define d where "d = path_method X self file_type tmp_path w2"
  have cfg: "tesseract_cmd w2 = tesseract_cmd w" "self_lang w2 self = self_lang w self"
    by (simp_all add: w2_def self_lang_def)
  obtain pgs where pgs: "snd d =
      w2\<lparr>calls := calls w2 @
         (if file_type = ''pdf'' then ConvertFromPath tmp_path 300 else ImageOpen tmp_path) #
         map (\<lambda>pg. ImageToString (tesseract_cmd w) pg (self_lang w self)) pgs\<rparr>"
    using path_method_frame [of X self file_type tmp_path w2] unfolding d_def cfg by blast
  have e: "extract_from_bytes X self file_bytes file_type w =
      (case unlink_error X ((fs w)(tmp_path \<mapsto> file_bytes)) tmp_path of
           Some e \<Rightarrow> (Inl e, record_call (Unlink tmp_path) (snd d))
         | None \<Rightarrow> (fst d, record_call (Unlink tmp_path)
                      ((snd d)\<lparr>fs := (fs w)(tmp_path := None)\<rparr>)))"
    using extract_from_bytes_staged [OF mk wr, of self] unfolding Let_def d_def w2_def .
  show ?thesis
  proof (cases "unlink_error X ((fs w)(tmp_path \<mapsto> file_bytes)) tmp_path")
    case None
    have "snd (extract_from_bytes X self file_bytes file_type w) =
        w\<lparr>fs := (fs w)(tmp_path := None),
       calls := calls w @
         [TempFileCreate (''.'' @ file_type), TempFileWrite tmp_path file_bytes,
          if file_type = ''pdf'' then ConvertFromPath tmp_path 300 else ImageOpen tmp_path] @
         map (\<lambda>pg. ImageToString (tesseract_cmd w) pg (self_lang w self)) pgs @
         [Unlink tmp_path]\<rparr>"
      unfolding e None pgs by (simp add: record_call_def w2_def)
    then show ?thesis by blast
  next
    case (Some x)
    have "snd (extract_from_bytes X self file_bytes file_type w) =
        w\<lparr>fs := (fs w)(tmp_path \<mapsto> file_bytes),
       calls := calls w @
         [TempFileCreate (''.'' @ file_type), TempFileWrite tmp_path file_bytes,
          if file_type = ''pdf'' then ConvertFromPath tmp_path 300 else ImageOpen tmp_path] @
         map (\<lambda>pg. ImageToString (tesseract_cmd w) pg (self_lang w self)) pgs @
         [Unlink tmp_path]\<rparr>"
      unfolding e Some pgs by (simp add: record_call_def w2_def)
    then show ?thesis by blast
  qed
qed

lemma langs_used_append [simp]: "langs_used (xs @ ys) = langs_used xs @ langs_used ys"
  by (induction xs rule: langs_used.induct) simp_all

lemma cmds_used_append [simp]: "cmds_used (xs @ ys) = cmds_used xs @ cmds_used ys"
  by (induction xs rule: cmds_used.induct) simp_all

lemma dpis_used_append [simp]: "dpis_used (xs @ ys) = dpis_used xs @ dpis_used ys"
  by (induction xs rule: dpis_used.induct) simp_all

lemma unlinks_append [simp]: "unlinks (xs @ ys) = unlinks xs @ unlinks ys"
  by (induction xs rule: unlinks.induct) simp_all

text \<open>In every case the call leaves the module variable and the objects as they were,
  and only adds to the log.\<close>

lemma extract_from_bytes_frame:
  "\<exists>F evs. snd (extract_from_bytes X self file_bytes file_type w) =
             w\<lparr>fs := F, calls := calls w @ evs\<rparr> \<and>
           set (langs_used evs) \<subseteq> {self_lang w self} \<and>
           set (cmds_used evs) \<subseteq> {tesseract_cmd w}"
proof (cases "mkstemp X (fs w) (''.'' @ file_type)")
  case (Inl e)
  have "snd (extract_from_bytes X self file_bytes file_type w) =
      w\<lparr>fs := fs w, calls := calls w @ [TempFileCreate (''.'' @ file_type)]\<rparr>"
    by (simp add: extract_from_bytes_no_file [OF Inl])
  moreover have "langs_used [TempFileCreate (''.'' @ file_type) :: 'a event] = []"
    "cmds_used [TempFileCreate (''.'' @ file_type) :: 'a event] = []"
    by simp_all
  ultimately show ?thesis
    by (metis empty_set empty_subsetI)
next
  case (Inr tmp_path)
  show ?thesis
  proof (cases "write_outcome X tmp_path file_bytes")
    case None
    from extract_from_bytes_staged_calls [OF Inr None, of self]
    obtain F pgs where "snd (extract_from_bytes X self file_bytes file_type w) =
     w\<lparr>fs := F,
       calls := calls w @
         [TempFileCreate (''.'' @ file_type), TempFileWrite tmp_path file_bytes,
          if file_type = ''pdf'' then ConvertFromPath tmp_path 300 else ImageOpen tmp_path] @
         map (\<lambda>pg. ImageToString (tesseract_cmd w) pg (self_lang w self)) pgs @
         [Unlink tmp_path]\<rparr>"
      by blast
    moreover have "set (langs_used ([TempFileCreate (''.'' @ file_type), TempFileWrite tmp_path file_bytes,
          if file_type = ''pdf'' then ConvertFromPath tmp_path 300 else ImageOpen tmp_path] @
         map (\<lambda>pg. ImageToString (tesseract_cmd w) pg (self_lang w self)) pgs @
         [Unlink tmp_path])) \<subseteq> {self_lang w self}"
      "set (cmds_used ([TempFileCreate (''.'' @ file_type), TempFileWrite tmp_path file_bytes,
          if file_type = ''pdf'' then ConvertFromPath tmp_path 300 else ImageOpen tmp_path] @
         map (\<lambda>pg. ImageToString (tesseract_cmd w) pg (self_lang w self)) pgs @
         [Unlink tmp_path])) \<subseteq> {tesseract_cmd w}"
      by auto
    ultimately show ?thesis by blast
  next
    case (Some a)
    obtain e written where a: "a = (e, written)" by (cases a)
    have "snd (extract_from_bytes X self file_bytes file_type w) =
      w\<lparr>fs := (fs w)(tmp_path \<mapsto> written),
        calls := calls w @ [TempFileCreate (''.'' @ file_type), TempFileWrite tmp_path file_bytes]\<rparr>"
      using extract_from_bytes_write_failed [OF Inr, of file_bytes e written self] Some a by simp
    moreover have "langs_used [TempFileCreate (''.'' @ file_type), TempFileWrite tmp_path file_bytes :: 'a event] = []"
      "cmds_used [TempFileCreate (''.'' @ file_type), TempFileWrite tmp_path file_bytes :: 'a event] = []"
      by simp_all
    ultimately show ?thesis
      by (metis empty_set empty_subsetI)
  qed
qed

subsection \<open>Bytes staged in a temporary file\<close>

text \<open>
  C3, amended. For every byte buffer and file type, when the temporary file is created
  and written and \<^verbatim>\<open>os.unlink\<close> then succeeds on it, \<^verbatim>\<open>extract_from_bytes\<close>
  returns what the corresponding path-based method returns on a file \<open>p\<close> that
  holds the same bytes (in a state \<open>v\<close> with the same objects and the same engine executable): \<^verbatim>\<open>extract_text_from_pdf\<close> when the file type
  is \<^verbatim>\<open>"pdf"\<close>, \<^verbatim>\<open>extract_text_from_image\<close> for any other file type. This covers a
  returned list and a raised exception alike.
\<close>

theorem extract_from_bytes_round_trip:
  assumes "mkstemp X (fs w) (''.'' @ file_type) = Inr tmp_path"
    and "write_outcome X tmp_path file_bytes = None"
    and "unlink_error X ((fs w)(tmp_path \<mapsto> file_bytes)) tmp_path = None"
    and "fs v p = Some file_bytes"
    and "tesseract_cmd v = tesseract_cmd w"
    and "objects v = objects w"
  shows "fst (extract_from_bytes X self file_bytes file_type w) =
           (if file_type = ''pdf'' then fst (extract_text_from_pdf X self p None v)
            else fst (extract_text_from_image X self p v))"
proof -
  let ?w2 = "w\<lparr>fs := (fs w)(tmp_path \<mapsto> file_bytes),
                calls := calls w @ [TempFileCreate (''.'' @ file_type),
                                    TempFileWrite tmp_path file_bytes]\<rparr>"
  have "fst (extract_from_bytes X self file_bytes file_type w) =
      fst (path_method X self file_type tmp_path ?w2)"
    using extract_from_bytes_staged [OF assms(1,2), of self] assms(3) by (simp add: Let_def)
  also have "\<dots> = fst (path_method X self file_type p v)"
    by (rule path_method_result_cong) (simp_all add: assms self_lang_def)
  finally show ?thesis
    by (simp add: path_method_def)
qed

theorem extract_from_bytes_round_trip_witness:
  "mkstemp demo_X (fs demo_w) (''.'' @ ''pdf'') = Inr ''/tmp/tmpq3.pdf'' \<and>
   write_outcome demo_X ''/tmp/tmpq3.pdf'' [1, 2, 3] = None \<and>
   unlink_error demo_X ((fs demo_w)(''/tmp/tmpq3.pdf'' \<mapsto> [1, 2, 3])) ''/tmp/tmpq3.pdf'' = None \<and>
   fs demo_w ''/data/report.pdf'' = Some [1, 2, 3] \<and>
   fst (extract_from_bytes demo_X 0 [1, 2, 3] ''pdf'' demo_w) =
     fst (extract_text_from_pdf demo_X 0 ''/data/report.pdf'' None demo_w)"
proof -
  have h1: "mkstemp demo_X (fs demo_w) (''.'' @ ''pdf'') = Inr ''/tmp/tmpq3.pdf''"
    by (simp add: demo_X_def)
  have h2: "write_outcome demo_X ''/tmp/tmpq3.pdf'' [1, 2, 3] = None"
    by (simp add: demo_X_def)
  have h3: "unlink_error demo_X ((fs demo_w)(''/tmp/tmpq3.pdf'' \<mapsto> [1, 2, 3])) ''/tmp/tmpq3.pdf'' = None"
    by (simp add: demo_X_def)
  have h4: "fs demo_w ''/data/report.pdf'' = Some [1, 2, 3]"
    by (simp add: demo_w_def)
  from extract_from_bytes_round_trip [OF h1 h2 h3 h4 refl refl, of 0]
  have "fst (extract_from_bytes demo_X 0 [1, 2, 3] ''pdf'' demo_w) =
     fst (extract_text_from_pdf demo_X 0 ''/data/report.pdf'' None demo_w)"
    by simp
  with h1 h2 h3 h4 show ?thesis by blast
qed

text \<open>
  C3 as stated fails: \<^verbatim>\<open>os.unlink\<close> runs in the \<^verbatim>\<open>finally\<close> clause, and when it
  raises, the list that the dispatched method returned is lost. Here the file
  \<^verbatim>\<open>/data/report.pdf\<close> holds the bytes that are passed; \<^verbatim>\<open>extract_text_from_pdf\<close> on
  that file returns three entries, and \<^verbatim>\<open>extract_from_bytes\<close> on the bytes ends with
  the exception of \<^verbatim>\<open>os.unlink\<close>.
\<close>

theorem unlink_failure_breaks_round_trip:
  "fs demo_w ''/data/report.pdf'' = Some [1, 2, 3] \<and>
   fst (extract_text_from_pdf demo_X_unlink_fails 0 ''/data/report.pdf'' None demo_w)
     = Inr [(1, [0xB81]), (2, [0xB82]), (3, [0xB83])] \<and>
   fst (extract_from_bytes demo_X_unlink_fails 0 [1, 2, 3] ''pdf'' demo_w) = Inl ''PermissionError'' \<and>
   fst (extract_from_bytes demo_X_unlink_fails 0 [1, 2, 3] ''pdf'' demo_w) \<noteq>
     fst (extract_text_from_pdf demo_X_unlink_fails 0 ''/data/report.pdf'' None demo_w)"
  by (simp add: extract_from_bytes_def NamedTemporaryFile_def tmp_write_def os_unlink_def
      extract_text_from_pdf_def convert_from_path_def image_to_string_def record_call_def
      self_lang_def demo_X_def demo_w_def demo_X_unlink_fails_def strip_def is_whitespace_def)

subsection \<open>Configuration seen by the collaborators\<close>

lemma extract_text_from_pdf_config:
  "set (langs_used (new_calls w (snd (extract_text_from_pdf X self p dpi_arg w)))) \<subseteq> {self_lang w self} \<and>
   set (cmds_used (new_calls w (snd (extract_text_from_pdf X self p dpi_arg w)))) \<subseteq> {tesseract_cmd w} \<and>
   dpis_used (new_calls w (snd (extract_text_from_pdf X self p dpi_arg w))) =
     [case dpi_arg of None \<Rightarrow> 300 | Some d \<Rightarrow> d] \<and>
   objects (snd (extract_text_from_pdf X self p dpi_arg w)) = objects w \<and>
   tesseract_cmd (snd (extract_text_from_pdf X self p dpi_arg w)) = tesseract_cmd w \<and>
   fs (snd (extract_text_from_pdf X self p dpi_arg w)) = fs w"
proof -
  obtain pgs where "snd (extract_text_from_pdf X self p dpi_arg w) =
     w\<lparr>calls := calls w @ ConvertFromPath p (case dpi_arg of None \<Rightarrow> 300 | Some d \<Rightarrow> d) #
         map (\<lambda>pg. ImageToString (tesseract_cmd w) pg (self_lang w self)) pgs\<rparr>"
    using extract_text_from_pdf_frame by blast
  then show ?thesis by auto
qed

lemma extract_text_from_image_config:
  "set (langs_used (new_calls w (snd (extract_text_from_image X self p w)))) \<subseteq> {self_lang w self} \<and>
   set (cmds_used (new_calls w (snd (extract_text_from_image X self p w)))) \<subseteq> {tesseract_cmd w} \<and>
   dpis_used (new_calls w (snd (extract_text_from_image X self p w))) = [] \<and>
   objects (snd (extract_text_from_image X self p w)) = objects w \<and>
   tesseract_cmd (snd (extract_text_from_image X self p w)) = tesseract_cmd w \<and>
   fs (snd (extract_text_from_image X self p w)) = fs w"
proof -
  obtain pgs where "snd (extract_text_from_image X self p w) =
     w\<lparr>calls := calls w @ ImageOpen p #
         map (\<lambda>pg. ImageToString (tesseract_cmd w) pg (self_lang w self)) pgs\<rparr>"
    using extract_text_from_image_frame by blast
  then show ?thesis by auto
qed

lemma extract_from_bytes_config:
  "set (langs_used (new_calls w (snd (extract_from_bytes X self file_bytes file_type w))))
     \<subseteq> {self_lang w self} \<and>
   set (cmds_used (new_calls w (snd (extract_from_bytes X self file_bytes file_type w))))
     \<subseteq> {tesseract_cmd w} \<and>
   objects (snd (extract_from_bytes X self file_bytes file_type w)) = objects w \<and>
   tesseract_cmd (snd (extract_from_bytes X self file_bytes file_type w)) = tesseract_cmd w"
proof -
  obtain F evs where "snd (extract_from_bytes X self file_bytes file_type w) =
             w\<lparr>fs := F, calls := calls w @ evs\<rparr>"
    and "set (langs_used evs) \<subseteq> {self_lang w self}"
    and "set (cmds_used evs) \<subseteq> {tesseract_cmd w}"
    using extract_from_bytes_frame by blast
  then show ?thesis by simp
qed

lemma extract_from_bytes_dpis:
  "dpis_used (new_calls w (snd (extract_from_bytes X self file_bytes file_type w))) =
     (case mkstemp X (fs w) (''.'' @ file_type) of
        Inl e \<Rightarrow> []
      | Inr tmp_path \<Rightarrow>
          (case write_outcome X tmp_path file_bytes of
             Some a \<Rightarrow> []
           | None \<Rightarrow> if file_type = ''pdf'' then [300] else []))"
proof (cases "mkstemp X (fs w) (''.'' @ file_type)")
  case (Inl e)
  show ?thesis
    using Inl by (simp add: extract_from_bytes_no_file [OF Inl])
next
  case (Inr tmp_path)
  show ?thesis
  proof (cases "write_outcome X tmp_path file_bytes")
    case None
    from extract_from_bytes_staged_calls [OF Inr None, of self]
    obtain F pgs where "snd (extract_from_bytes X self file_bytes file_type w) =
     w\<lparr>fs := F,
       calls := calls w @
         [TempFileCreate (''.'' @ file_type), TempFileWrite tmp_path file_bytes,
          if file_type = ''pdf'' then ConvertFromPath tmp_path 300 else ImageOpen tmp_path] @
         map (\<lambda>pg. ImageToString (tesseract_cmd w) pg (self_lang w self)) pgs @
         [Unlink tmp_path]\<rparr>"
      by blast
    then show ?thesis
      using Inr None by simp
  next
    case (Some a)
    obtain e written where a: "a = (e, written)" by (cases a)
    show ?thesis
      using Inr Some by (simp add: extract_from_bytes_write_failed [OF Inr Some [unfolded a]])
  qed
qed

subsection \<open>Runs in the concrete setting\<close>

lemmas demo_eval = extract_from_bytes_def NamedTemporaryFile_def tmp_write_def os_unlink_def
  extract_text_from_image_def extract_text_from_pdf_def convert_from_path_def Image_open_def
  image_to_string_def record_call_def self_lang_def path_method_def
  demo_X_def demo_w_def demo_X_unlink_fails_def demo_X_disk_full_def demo_X_no_tmp_dir_def
  strip_def is_whitespace_def new_calls_def

subsection \<open>The exceptions of \<^verbatim>\<open>extract_from_bytes\<close>\<close>

text \<open>
  C7, amended. If the extraction to which \<^verbatim>\<open>extract_from_bytes\<close> dispatches succeeds
  with a list, the call returns that list when \<^verbatim>\<open>os.unlink\<close> then succeeds; when
  \<^verbatim>\<open>os.unlink\<close> raises, the call ends with the exception of \<^verbatim>\<open>os.unlink\<close> and the
  list is not returned.
\<close>

theorem extract_from_bytes_success_and_cleanup:
  assumes "mkstemp X (fs w) (''.'' @ file_type) = Inr tmp_path"
    and "write_outcome X tmp_path file_bytes = None"
    and "fst (path_method X self file_type tmp_path (w\<lparr>fs := (fs w)(tmp_path \<mapsto> file_bytes)\<rparr>))
           = Inr results"
  shows "fst (extract_from_bytes X self file_bytes file_type w) =
           (case unlink_error X ((fs w)(tmp_path \<mapsto> file_bytes)) tmp_path of
              None \<Rightarrow> Inr results
            | Some e \<Rightarrow> Inl e)"
proof -
  let ?w2 = "w\<lparr>fs := (fs w)(tmp_path \<mapsto> file_bytes),
                calls := calls w @ [TempFileCreate (''.'' @ file_type),
                                    TempFileWrite tmp_path file_bytes]\<rparr>"
  have "fst (path_method X self file_type tmp_path ?w2) =
      fst (path_method X self file_type tmp_path (w\<lparr>fs := (fs w)(tmp_path \<mapsto> file_bytes)\<rparr>))"
    by (rule path_method_result_cong) (simp_all add: self_lang_def)
  then have "fst (path_method X self file_type tmp_path ?w2) = Inr results"
    using assms(3) by simp
  then show ?thesis
    using extract_from_bytes_staged [OF assms(1,2), of self]
    by (simp add: Let_def split: option.splits)
qed

theorem extract_from_bytes_success_and_cleanup_witness:
  "mkstemp demo_X_unlink_fails (fs demo_w) (''.'' @ ''png'') = Inr ''/tmp/tmpq3.png'' \<and>
   write_outcome demo_X_unlink_fails ''/tmp/tmpq3.png'' [9, 9] = None \<and>
   fst (path_method demo_X_unlink_fails 0 ''png'' ''/tmp/tmpq3.png''
         (demo_w\<lparr>fs := (fs demo_w)(''/tmp/tmpq3.png'' \<mapsto> [9, 9])\<rparr>)) = Inr [(1, [0xB82])] \<and>
   fst (extract_from_bytes demo_X_unlink_fails 0 [9, 9] ''png'' demo_w) = Inl ''PermissionError''"
proof -
  have h1: "mkstemp demo_X_unlink_fails (fs demo_w) (''.'' @ ''png'') = Inr ''/tmp/tmpq3.png''"
    by (simp add: demo_X_def demo_X_unlink_fails_def)
  have h2: "write_outcome demo_X_unlink_fails ''/tmp/tmpq3.png'' [9, 9] = None"
    by (simp add: demo_X_def demo_X_unlink_fails_def)
  have h3: "fst (path_method demo_X_unlink_fails 0 ''png'' ''/tmp/tmpq3.png''
         (demo_w\<lparr>fs := (fs demo_w)(''/tmp/tmpq3.png'' \<mapsto> [9, 9])\<rparr>)) = Inr [(1, [0xB82])]"
    by (simp add: demo_eval)
  from extract_from_bytes_success_and_cleanup [OF h1 h2 h3]
  have "fst (extract_from_bytes demo_X_unlink_fails 0 [9, 9] ''png'' demo_w) = Inl ''PermissionError''"
    by (simp add: demo_X_unlink_fails_def)
  with h1 h2 h3 show ?thesis by blast
qed

text \<open>
  C7 as stated fails: the module has no handler around \<^verbatim>\<open>os.unlink\<close> and writes no log.
  With an \<^verbatim>\<open>os.unlink\<close> that raises, the extraction of a two-byte image succeeds on the
  temporary file, and the call ends with the exception of \<^verbatim>\<open>os.unlink\<close>.
\<close>

theorem unlink_failure_overturns_success:
  "fst (path_method demo_X_unlink_fails 0 ''png'' ''/tmp/tmpq3.png''
         (demo_w\<lparr>fs := (fs demo_w)(''/tmp/tmpq3.png'' \<mapsto> [9, 9])\<rparr>)) = Inr [(1, [0xB82])] \<and>
   fst (extract_from_bytes demo_X_unlink_fails 0 [9, 9] ''png'' demo_w) = Inl ''PermissionError''"
  by (simp add: demo_eval)

text \<open>
  C6, amended. \<^verbatim>\<open>extract_from_bytes\<close> ends with the exception of
  \<^verbatim>\<open>NamedTemporaryFile\<close> or of the write when the temporary file cannot be created or
  written; it ends with the exception of the dispatched method, unchanged, when that
  method raises and \<^verbatim>\<open>os.unlink\<close> then succeeds; and it ends with the exception of
  \<^verbatim>\<open>os.unlink\<close> whenever \<^verbatim>\<open>os.unlink\<close> raises, whatever the dispatched method did.
\<close>

theorem extract_from_bytes_failures:
  "(mkstemp X (fs w) (''.'' @ file_type) = Inl e \<longrightarrow>
      fst (extract_from_bytes X self file_bytes file_type w) = Inl e) \<and>
   (mkstemp X (fs w) (''.'' @ file_type) = Inr tmp_path \<and>
    write_outcome X tmp_path file_bytes = Some (e, written) \<longrightarrow>
      fst (extract_from_bytes X self file_bytes file_type w) = Inl e) \<and>
   (mkstemp X (fs w) (''.'' @ file_type) = Inr tmp_path \<and>
    write_outcome X tmp_path file_bytes = None \<and>
    unlink_error X ((fs w)(tmp_path \<mapsto> file_bytes)) tmp_path = None \<and>
    fst (path_method X self file_type tmp_path (w\<lparr>fs := (fs w)(tmp_path \<mapsto> file_bytes)\<rparr>)) = Inl e \<longrightarrow>
      fst (extract_from_bytes X self file_bytes file_type w) = Inl e) \<and>
   (mkstemp X (fs w) (''.'' @ file_type) = Inr tmp_path \<and>
    write_outcome X tmp_path file_bytes = None \<and>
    unlink_error X ((fs w)(tmp_path \<mapsto> file_bytes)) tmp_path = Some e \<longrightarrow>
      fst (extract_from_bytes X self file_bytes file_type w) = Inl e)"
proof (intro conjI impI; (elim conjE)?)
  assume "mkstemp X (fs w) (''.'' @ file_type) = Inl e"
  then show "fst (extract_from_bytes X self file_bytes file_type w) = Inl e"
    by (simp add: extract_from_bytes_no_file)
next
  assume "mkstemp X (fs w) (''.'' @ file_type) = Inr tmp_path"
    and "write_outcome X tmp_path file_bytes = Some (e, written)"
  then show "fst (extract_from_bytes X self file_bytes file_type w) = Inl e"
    by (simp add: extract_from_bytes_write_failed)
next
  let ?w2 = "w\<lparr>fs := (fs w)(tmp_path \<mapsto> file_bytes),
                calls := calls w @ [TempFileCreate (''.'' @ file_type),
                                    TempFileWrite tmp_path file_bytes]\<rparr>"
  assume mk: "mkstemp X (fs w) (''.'' @ file_type) = Inr tmp_path"
    and wr: "write_outcome X tmp_path file_bytes = None"
    and ul: "unlink_error X ((fs w)(tmp_path \<mapsto> file_bytes)) tmp_path = None"
    and d: "fst (path_method X self file_type tmp_path (w\<lparr>fs := (fs w)(tmp_path \<mapsto> file_bytes)\<rparr>)) = Inl e"
  have "fst (path_method X self file_type tmp_path ?w2) =
      fst (path_method X self file_type tmp_path (w\<lparr>fs := (fs w)(tmp_path \<mapsto> file_bytes)\<rparr>))"
    by (rule path_method_result_cong) (simp_all add: self_lang_def)
  then show "fst (extract_from_bytes X self file_bytes file_type w) = Inl e"
    using extract_from_bytes_staged [OF mk wr, of self] ul d by (simp add: Let_def)
next
  assume mk: "mkstemp X (fs w) (''.'' @ file_type) = Inr tmp_path"
    and wr: "write_outcome X tmp_path file_bytes = None"
    and ul: "unlink_error X ((fs w)(tmp_path \<mapsto> file_bytes)) tmp_path = Some e"
  show "fst (extract_from_bytes X self file_bytes file_type w) = Inl e"
    using extract_from_bytes_staged [OF mk wr, of self] ul by (simp add: Let_def)
qed

theorem extract_from_bytes_failures_witness:
  "mkstemp demo_X_no_tmp_dir (fs demo_w) (''.'' @ ''pdf'')
     = Inl ''FileNotFoundError: No usable temporary directory'' \<and>
   fst (extract_from_bytes demo_X_no_tmp_dir 0 [1, 2, 3] ''pdf'' demo_w)
     = Inl ''FileNotFoundError: No usable temporary directory'' \<and>
   write_outcome demo_X_disk_full ''/tmp/tmpq3.pdf'' [1, 2, 3] = Some (''OSError: No space left'', [1]) \<and>
   fst (extract_from_bytes demo_X_disk_full 0 [1, 2, 3] ''pdf'' demo_w) = Inl ''OSError: No space left'' \<and>
   fst (path_method demo_X 0 ''pdf'' ''/tmp/tmpq3.pdf''
         (demo_w\<lparr>fs := (fs demo_w)(''/tmp/tmpq3.pdf'' \<mapsto> [4, 0, 5])\<rparr>)) = Inl ''TesseractError'' \<and>
   fst (extract_from_bytes demo_X 0 [4, 0, 5] ''pdf'' demo_w) = Inl ''TesseractError'' \<and>
   unlink_error demo_X_unlink_fails ((fs demo_w)(''/tmp/tmpq3.pdf'' \<mapsto> [4, 0, 5])) ''/tmp/tmpq3.pdf''
     = Some ''PermissionError'' \<and>
   fst (extract_from_bytes demo_X_unlink_fails 0 [4, 0, 5] ''pdf'' demo_w) = Inl ''PermissionError''"
proof -
  have a: "mkstemp demo_X_no_tmp_dir (fs demo_w) (''.'' @ ''pdf'')
      = Inl ''FileNotFoundError: No usable temporary directory''"
    by (simp add: demo_X_no_tmp_dir_def demo_X_def)
  have b: "mkstemp demo_X_disk_full (fs demo_w) (''.'' @ ''pdf'') = Inr ''/tmp/tmpq3.pdf''"
    "write_outcome demo_X_disk_full ''/tmp/tmpq3.pdf'' [1, 2, 3] = Some (''OSError: No space left'', [1])"
    by (simp_all add: demo_X_disk_full_def demo_X_def)
  have c: "mkstemp demo_X (fs demo_w) (''.'' @ ''pdf'') = Inr ''/tmp/tmpq3.pdf''"
    "write_outcome demo_X ''/tmp/tmpq3.pdf'' [4, 0, 5] = None"
    "unlink_error demo_X ((fs demo_w)(''/tmp/tmpq3.pdf'' \<mapsto> [4, 0, 5])) ''/tmp/tmpq3.pdf'' = None"
    "fst (path_method demo_X 0 ''pdf'' ''/tmp/tmpq3.pdf''
         (demo_w\<lparr>fs := (fs demo_w)(''/tmp/tmpq3.pdf'' \<mapsto> [4, 0, 5])\<rparr>)) = Inl ''TesseractError''"
    by (simp_all add: demo_eval)
  have d: "mkstemp demo_X_unlink_fails (fs demo_w) (''.'' @ ''pdf'') = Inr ''/tmp/tmpq3.pdf''"
    "write_outcome demo_X_unlink_fails ''/tmp/tmpq3.pdf'' [4, 0, 5] = None"
    "unlink_error demo_X_unlink_fails ((fs demo_w)(''/tmp/tmpq3.pdf'' \<mapsto> [4, 0, 5])) ''/tmp/tmpq3.pdf''
      = Some ''PermissionError''"
    by (simp_all add: demo_X_unlink_fails_def demo_X_def)
  have "fst (extract_from_bytes demo_X_no_tmp_dir 0 [1, 2, 3] ''pdf'' demo_w)
      = Inl ''FileNotFoundError: No usable temporary directory''"
    using extract_from_bytes_failures
      [of demo_X_no_tmp_dir demo_w "''pdf''" "''FileNotFoundError: No usable temporary directory''"
        0 "[1, 2, 3]"] a
    by blast
  moreover have "fst (extract_from_bytes demo_X_disk_full 0 [1, 2, 3] ''pdf'' demo_w)
      = Inl ''OSError: No space left''"
    using extract_from_bytes_failures
      [of demo_X_disk_full demo_w "''pdf''" "''OSError: No space left''" 0 "[1, 2, 3]"
        "''/tmp/tmpq3.pdf''" "[1]"] b
    by blast
  moreover have "fst (extract_from_bytes demo_X 0 [4, 0, 5] ''pdf'' demo_w) = Inl ''TesseractError''"
    using extract_from_bytes_failures
      [of demo_X demo_w "''pdf''" "''TesseractError''" 0 "[4, 0, 5]" "''/tmp/tmpq3.pdf''"] c
    by blast
  moreover have "fst (extract_from_bytes demo_X_unlink_fails 0 [4, 0, 5] ''pdf'' demo_w)
      = Inl ''PermissionError''"
    using extract_from_bytes_failures
      [of demo_X_unlink_fails demo_w "''pdf''" "''PermissionError''" 0 "[4, 0, 5]" "''/tmp/tmpq3.pdf''"] d
    by blast
  ultimately show ?thesis
    using a b(2) c(4) d(3) by blast
qed

text \<open>
  C6 as stated fails: when the engine raises on a page of the staged PDF and
  \<^verbatim>\<open>os.unlink\<close> raises as well, the caller sees the exception of \<^verbatim>\<open>os.unlink\<close>, not
  the one of the dispatched method.
\<close>

theorem unlink_failure_replaces_dispatched_failure:
  "fst (path_method demo_X_unlink_fails 0 ''pdf'' ''/tmp/tmpq3.pdf''
         (demo_w\<lparr>fs := (fs demo_w)(''/tmp/tmpq3.pdf'' \<mapsto> [4, 0, 5])\<rparr>)) = Inl ''TesseractError'' \<and>
   fst (extract_from_bytes demo_X_unlink_fails 0 [4, 0, 5] ''pdf'' demo_w) = Inl ''PermissionError''"
  by (simp add: demo_eval)

subsection \<open>The temporary file\<close>




text \<open>
  When the write raises, the method is left before the \<^verbatim>\<open>try\<close> statement is reached:
  \<^verbatim>\<open>os.unlink\<close> is not called and the file stays, with what had been written.
\<close>

lemma extract_from_bytes_write_failure_keeps_file:
  assumes "mkstemp X (fs w) (''.'' @ file_type) = Inr tmp_path"
    and "write_outcome X tmp_path file_bytes = Some (e, written)"
  shows "fs (snd (extract_from_bytes X self file_bytes file_type w)) tmp_path = Some written"
    and "unlinks (new_calls w (snd (extract_from_bytes X self file_bytes file_type w))) = []"
  using assms by (simp_all add: extract_from_bytes_write_failed)

subsection \<open>Resolution, language and executable\<close>

text \<open>
  C9. The resolution is an argument of each call, 300 when the caller gives none:
  \<^verbatim>\<open>extract_text_from_pdf\<close> calls \<^verbatim>\<open>convert_from_path\<close> exactly once, with the dpi
  of the caller or with 300; \<^verbatim>\<open>extract_from_bytes\<close>, which takes no dpi, rasterizes
  with 300 when the file type is \<^verbatim>\<open>"pdf"\<close> and the bytes were staged, and does not
  rasterize otherwise.
\<close>

theorem rasterization_dpi:
  "dpis_used (new_calls w (snd (extract_text_from_pdf X self p None w))) = [300] \<and>
   dpis_used (new_calls w (snd (extract_text_from_pdf X self p (Some dpi) w))) = [dpi] \<and>
   dpis_used (new_calls w (snd (extract_from_bytes X self file_bytes file_type w))) =
     (case mkstemp X (fs w) (''.'' @ file_type) of
        Inl e \<Rightarrow> []
      | Inr tmp_path \<Rightarrow>
          (case write_outcome X tmp_path file_bytes of
             Some a \<Rightarrow> []
           | None \<Rightarrow> if file_type = ''pdf'' then [300] else []))"
  using extract_text_from_pdf_config [of w X self p None]
    extract_text_from_pdf_config [of w X self p "Some dpi"]
    extract_from_bytes_dpis [of w X self file_bytes file_type]
  by simp

theorem rasterization_dpi_witness:
  "dpis_used (new_calls demo_w (snd (extract_text_from_pdf demo_X 0 ''/data/report.pdf'' None demo_w)))
     = [300] \<and>
   dpis_used (new_calls demo_w (snd (extract_text_from_pdf demo_X 0 ''/data/report.pdf'' (Some 150) demo_w)))
     = [150] \<and>
   dpis_used (new_calls demo_w (snd (extract_from_bytes demo_X 0 [1, 2, 3] ''pdf'' demo_w))) = [300]"
  using rasterization_dpi [of demo_w demo_X 0 "''/data/report.pdf''" 150 "[1, 2, 3]" "''pdf''"]
  by (simp add: demo_X_def)

text \<open>
  C8. The language of an object is the one given to its constructor (\<^verbatim>\<open>"tam"\<close> by
  default), and constructing further objects does not change it. Every call of the OCR
  engine made by \<^verbatim>\<open>extract_text_from_pdf\<close>, \<^verbatim>\<open>extract_text_from_image\<close> and
  \<^verbatim>\<open>extract_from_bytes\<close>, for every page, is made with the language of \<open>self\<close>, and none
  of the three methods changes any object.
\<close>

theorem language_fixed_at_construction:
  "self_lang (snd (init lang_arg w)) (fst (init lang_arg w)) =
     (case lang_arg of None \<Rightarrow> ''tam'' | Some l \<Rightarrow> l) \<and>
   (self < length (objects w) \<longrightarrow> self_lang (snd (init lang_arg w)) self = self_lang w self) \<and>
   set (langs_used (new_calls w (snd (extract_text_from_pdf X self p dpi_arg w)))) \<subseteq> {self_lang w self} \<and>
   objects (snd (extract_text_from_pdf X self p dpi_arg w)) = objects w \<and>
   set (langs_used (new_calls w (snd (extract_text_from_image X self p w)))) \<subseteq> {self_lang w self} \<and>
   objects (snd (extract_text_from_image X self p w)) = objects w \<and>
   set (langs_used (new_calls w (snd (extract_from_bytes X self file_bytes file_type w))))
     \<subseteq> {self_lang w self} \<and>
   objects (snd (extract_from_bytes X self file_bytes file_type w)) = objects w"
proof -
  have "self_lang (snd (init lang_arg w)) (fst (init lang_arg w)) =
      (case lang_arg of None \<Rightarrow> ''tam'' | Some l \<Rightarrow> l)"
    by (simp add: init_def self_lang_def Let_def)
  moreover have "self < length (objects w) \<longrightarrow>
      self_lang (snd (init lang_arg w)) self = self_lang w self"
    by (simp add: init_def self_lang_def Let_def nth_append)
  ultimately show ?thesis
    using extract_text_from_pdf_config [of w X self p dpi_arg]
      extract_text_from_image_config [of w X self p]
      extract_from_bytes_config [of w X self file_bytes file_type]
    by blast
qed

theorem language_fixed_at_construction_witness:
  "self_lang (snd (init (Some ''eng'') demo_w)) (fst (init (Some ''eng'') demo_w)) = ''eng'' \<and>
   0 < length (objects demo_w) \<and>
   self_lang (snd (init (Some ''eng'') demo_w)) 0 = ''tam'' \<and>
   set (langs_used (new_calls demo_w
          (snd (extract_text_from_pdf demo_X 0 ''/data/report.pdf'' None demo_w)))) \<subseteq> {''tam''} \<and>
   set (langs_used (new_calls demo_w
          (snd (extract_from_bytes demo_X 0 [9, 9] ''png'' demo_w)))) \<subseteq> {''tam''}"
proof -
  have l: "self_lang demo_w 0 = ''tam''" "0 < length (objects demo_w)"
    by (simp_all add: self_lang_def demo_w_def)
  show ?thesis
    using language_fixed_at_construction
      [of "Some ''eng''" demo_w 0 demo_X "''/data/report.pdf''" None "[9, 9]" "''png''"] l
    by simp
qed

text \<open>
  C10. Whatever the \<open>lang\<close> argument and whatever the module variable held before, every
  construction sets \<^verbatim>\<open>pytesseract.pytesseract.tesseract_cmd\<close> to
  \<^verbatim>\<open>"/usr/bin/tesseract"\<close>. The variable belongs to the process and not to the new object,
  whose only attribute is its language: after a construction, every engine call of every
  object \<open>self\<close>, in each of the three methods, runs that executable.
\<close>

theorem init_sets_tesseract_cmd:
  "tesseract_cmd (snd (init lang_arg w)) = ''/usr/bin/tesseract'' \<and>
   objects (snd (init lang_arg w)) =
     objects w @ [\<lparr>lang = (case lang_arg of None \<Rightarrow> ''tam'' | Some l \<Rightarrow> l)\<rparr>] \<and>
   fs (snd (init lang_arg w)) = fs w \<and>
   calls (snd (init lang_arg w)) = calls w \<and>
   set (cmds_used (new_calls (snd (init lang_arg w))
          (snd (extract_text_from_pdf X self p dpi_arg (snd (init lang_arg w))))))
     \<subseteq> {''/usr/bin/tesseract''} \<and>
   set (cmds_used (new_calls (snd (init lang_arg w))
          (snd (extract_text_from_image X self p (snd (init lang_arg w))))))
     \<subseteq> {''/usr/bin/tesseract''} \<and>
   set (cmds_used (new_calls (snd (init lang_arg w))
          (snd (extract_from_bytes X self file_bytes file_type (snd (init lang_arg w))))))
     \<subseteq> {''/usr/bin/tesseract''}"
proof -
  have cmd: "tesseract_cmd (snd (init lang_arg w)) = ''/usr/bin/tesseract''"
    by (simp add: init_def Let_def)
  have "objects (snd (init lang_arg w)) =
      objects w @ [\<lparr>lang = (case lang_arg of None \<Rightarrow> ''tam'' | Some l \<Rightarrow> l)\<rparr>]"
    "fs (snd (init lang_arg w)) = fs w" "calls (snd (init lang_arg w)) = calls w"
    by (simp_all add: init_def Let_def)
  then show ?thesis
    using cmd extract_text_from_pdf_config [of "snd (init lang_arg w)" X self p dpi_arg]
      extract_text_from_image_config [of "snd (init lang_arg w)" X self p]
      extract_from_bytes_config [of "snd (init lang_arg w)" X self file_bytes file_type]
    by simp
qed

theorem init_sets_tesseract_cmd_witness:
  "tesseract_cmd (snd (init (Some ''eng'') (demo_w\<lparr>tesseract_cmd := ''tesseract''\<rparr>)))
     = ''/usr/bin/tesseract'' \<and>
   tesseract_cmd (snd (init None (demo_w\<lparr>tesseract_cmd := ''tesseract''\<rparr>)))
     = ''/usr/bin/tesseract'' \<and>
   set (cmds_used (new_calls (snd (init (Some ''eng'') (demo_w\<lparr>tesseract_cmd := ''tesseract''\<rparr>)))
          (snd (extract_text_from_image demo_X 0 ''/data/scan.png''
                 (snd (init (Some ''eng'') (demo_w\<lparr>tesseract_cmd := ''tesseract''\<rparr>)))))))
     \<subseteq> {''/usr/bin/tesseract''}"
  using init_sets_tesseract_cmd
      [of "Some ''eng''" "demo_w\<lparr>tesseract_cmd := ''tesseract''\<rparr>" demo_X 0 "''/data/scan.png''"]
    init_sets_tesseract_cmd [of None "demo_w\<lparr>tesseract_cmd := ''tesseract''\<rparr>"]
  by blast

subsection \<open>Trimming\<close>

lemma strip_surrounding:
  "s = takeWhile is_whitespace s @ strip s @
       rev (takeWhile is_whitespace (rev (dropWhile is_whitespace s)))"
proof -
  let ?t = "dropWhile is_whitespace s"
  have "strip s @ rev (takeWhile is_whitespace (rev ?t)) =
      rev (takeWhile is_whitespace (rev ?t) @ dropWhile is_whitespace (rev ?t))"
    by (simp only: strip_def rev_append)
  also have "\<dots> = rev (rev ?t)"
    by (simp only: takeWhile_dropWhile_id)
  also have "\<dots> = ?t"
    by simp
  finally have "?t = strip s @ rev (takeWhile is_whitespace (rev ?t))"
    by simp
  moreover have "s = takeWhile is_whitespace s @ ?t"
    by simp
  ultimately show ?thesis by metis
qed

lemma strip_last: "strip s \<noteq> [] \<Longrightarrow> \<not> is_whitespace (last (strip s))"
  by (simp add: strip_def last_rev hd_dropWhile)

lemma strip_hd: "strip s \<noteq> [] \<Longrightarrow> \<not> is_whitespace (hd (strip s))"
proof -
  assume ne: "strip s \<noteq> []"
  let ?t = "dropWhile is_whitespace s"
  have t: "?t = strip s @ rev (takeWhile is_whitespace (rev ?t))"
    using strip_surrounding [of s] by (metis same_append_eq takeWhile_dropWhile_id)
  then have "hd ?t = hd (strip s)"
    using ne by (metis hd_append2)
  moreover have "?t \<noteq> []"
    using t ne by (metis append_is_Nil_conv)
  ultimately show ?thesis
    by (metis hd_dropWhile)
qed

lemma strip_dropped_whitespace:
  "list_all is_whitespace (takeWhile is_whitespace s)"
  "list_all is_whitespace (rev (takeWhile is_whitespace (rev (dropWhile is_whitespace s))))"
  by (simp_all add: list_all_iff) (metis set_takeWhileD)+

end
